theory Spec2Isabelle
  imports Complex_Main
begin

section \<open>Values, exceptions and outcomes\<close>

text \<open>
  The module \<^verbatim>\<open>aiographql/client/subscription.py\<close> works on decoded JSON values
  (what \<^verbatim>\<open>msg.json()\<close> yields). Python's \<^verbatim>\<open>None\<close> is the JSON null. A dict is
  an association list of its items; looking a key up reads the first item with that key.
  The code never looks inside a number.
\<close>

datatype json =
    JNull
  | JBool bool
  | JInt int
  | JFloat real
  | JStr string
  | JList "json list"
  | JObj "(string \<times> json) list"

text \<open>
  The exceptions that can travel through the module. \<open>Exception name\<close> stands for any
  exception class the module itself never names.
\<close>

datatype exn =
    CancelledError
  | KeyboardInterrupt
  | AttributeError
  | JSONDecodeError
  | ConnectionResetError
  | SyntaxError
  | Exception string

text \<open>
  A computation that changes a state either returns or raises; in both cases the state
  it has reached is kept, since the effects made before a raise stay made.
\<close>

datatype 's res = Return 's | Raise exn 's

fun state_of :: "'s res \<Rightarrow> 's" where
  "state_of (Return s) = s"
| "state_of (Raise e s) = s"

text \<open>
  \<^verbatim>\<open>d.get(k)\<close>: the value under \<open>k\<close>, \<^verbatim>\<open>None\<close> when the key is missing. Only a
  dict has the method: on any other JSON value the attribute lookup raises
  \<^verbatim>\<open>AttributeError\<close>.
\<close>

fun dict_get :: "json \<Rightarrow> string \<Rightarrow> exn + json" where
  "dict_get (JObj kvs) k = Inr (case map_of kvs k of None \<Rightarrow> JNull | Some v \<Rightarrow> v)"
| "dict_get _ k = Inl AttributeError"

section \<open>Event kinds\<close>

datatype GraphQLSubscriptionEventType =
    CONNECTION_INIT
  | CONNECTION_ACK
  | CONNECTION_ERROR
  | CONNECTION_TERMINATE
  | START
  | DATA
  | ERROR
  | COMPLETE
  | STOP
  | KEEP_ALIVE

fun enum_value :: "GraphQLSubscriptionEventType \<Rightarrow> string" where
  "enum_value CONNECTION_INIT = ''connection_init''"
| "enum_value CONNECTION_ACK = ''connection_ack''"
| "enum_value CONNECTION_ERROR = ''connection_error''"
| "enum_value CONNECTION_TERMINATE = ''connection_terminate''"
| "enum_value START = ''start''"
| "enum_value DATA = ''data''"
| "enum_value ERROR = ''error''"
| "enum_value COMPLETE = ''complete''"
| "enum_value STOP = ''stop''"
| "enum_value KEEP_ALIVE = ''ka''"

definition enum_members :: "GraphQLSubscriptionEventType list" where
  "enum_members =
     [CONNECTION_INIT, CONNECTION_ACK, CONNECTION_ERROR, CONNECTION_TERMINATE, START,
      DATA, ERROR, COMPLETE, STOP, KEEP_ALIVE]"

text \<open>
  \<^verbatim>\<open>GraphQLSubscriptionEventType(v)\<close>: the member whose value equals \<open>v\<close>. Every
  member's value is a \<^verbatim>\<open>str\<close>, so only a string can match. \<open>None\<close> is the
  \<^verbatim>\<open>ValueError\<close> that the lookup raises when nothing matches.
\<close>

fun enum_by_value :: "json \<Rightarrow> GraphQLSubscriptionEventType option" where
  "enum_by_value (JStr s) = find (\<lambda>m. enum_value m = s) enum_members"
| "enum_by_value _ = None"

section \<open>Requests, responses and events\<close>

text \<open>
  Modelled from the spec: the classes \<^verbatim>\<open>GraphQLRequest\<close>, \<^verbatim>\<open>GraphQLRequestContainer\<close>,
  \<^verbatim>\<open>GraphQLBaseResponse\<close> and \<^verbatim>\<open>GraphQLResponse\<close>, which the module imports from
  \<^verbatim>\<open>aiographql.client.transaction\<close>. A request is immutable and owns a header mapping
  from strings to strings; a container holds its request; a response holds, besides the
  request, a decoded JSON body. The subscription module reads two things of a request:
  its \<^verbatim>\<open>headers\<close> and the value of \<^verbatim>\<open>request.payload()\<close>. What that method puts into
  the value is not fixed here: the record stores the value itself, so every statement
  below holds whatever the method returns.
\<close>

record GraphQLRequest =
  headers :: "(string \<times> string) list"
  request_payload :: json

record GraphQLRequestContainer =
  request :: GraphQLRequest

record GraphQLBaseResponse = GraphQLRequestContainer +
  json :: json

record GraphQLSubscriptionEvent = GraphQLBaseResponse +
  subscription_id :: "string option"

text \<open>
  What the \<^verbatim>\<open>payload\<close> property hands out: a \<^verbatim>\<open>GraphQLResponse(request=..., json=...)\<close>
  or a plain decoded value (\<open>Plain JNull\<close> is \<^verbatim>\<open>None\<close>).
\<close>

datatype payload_value =
    GraphQLResponse GraphQLRequest json
  | Plain json

definition event_id :: "GraphQLSubscriptionEvent \<Rightarrow> exn + json" where
  "event_id ev = dict_get (json ev) ''id''"

text \<open>
  The \<^verbatim>\<open>type\<close> property: \<^verbatim>\<open>except ValueError: pass\<close> turns a failed lookup into
  \<^verbatim>\<open>None\<close>. An \<^verbatim>\<open>AttributeError\<close> of \<^verbatim>\<open>self.json.get\<close> is not caught.
\<close>

definition event_type :: "GraphQLSubscriptionEvent \<Rightarrow> exn + GraphQLSubscriptionEventType option" where
  "event_type ev =
     (case dict_get (json ev) ''type'' of
        Inl e \<Rightarrow> Inl e
      | Inr v \<Rightarrow> Inr (enum_by_value v))"

definition event_payload :: "GraphQLSubscriptionEvent \<Rightarrow> exn + payload_value" where
  "event_payload ev =
     (case dict_get (json ev) ''payload'' of
        Inl e \<Rightarrow> Inl e
      | Inr payload \<Rightarrow>
          if payload \<noteq> JNull then
            (case event_type ev of
               Inl e \<Rightarrow> Inl e
             | Inr t \<Rightarrow>
                 if t \<in> {Some DATA, Some ERROR}
                 then Inr (GraphQLResponse (request ev) payload)
                 else Inr (Plain payload))
          else Inr (Plain JNull))"

section \<open>The channel and the callback registry\<close>

text \<open>
  The websocket is a collaborator. \<open>calls\<close> lists every \<^verbatim>\<open>ws.send_json(data=...)\<close>
  made on it, in order, whether it went through or not. \<open>outcomes\<close> is what the
  transport will answer to the coming calls, one entry a call: \<open>None\<close> the frame is
  written, \<open>Some e\<close> the call raises \<open>e\<close> (a transport that is closing raises
  \<^verbatim>\<open>ConnectionResetError\<close>); once the list is used up every call goes through.
  \<open>released\<close> is set when \<^verbatim>\<open>async with session.ws_connect(...)\<close> is left.
\<close>

record chan =
  calls :: "json list"
  outcomes :: "exn option list"
  released :: bool

text \<open>What the handlers and the session act on: the channel and the caller's own data.\<close>

record 'u env =
  chan :: chan
  user :: 'u

definition send_json :: "json \<Rightarrow> 'u env \<Rightarrow> 'u env res" where
  "send_json data env =
     (let c = chan env;
          env' = env\<lparr>chan := c\<lparr>calls := calls c @ [data], outcomes := tl (outcomes c)\<rparr>\<rparr>
      in case outcomes c of
           Some e # _ \<Rightarrow> Raise e env'
         | _ \<Rightarrow> Return env')"

text \<open>
  Modelled from the spec: \<^verbatim>\<open>CallbackRegistry\<close> and \<^verbatim>\<open>SimpleTriggerCallback\<close> of the
  library \<^verbatim>\<open>cafeteria.asyncio.callbacks\<close>. The registry maps a key to the handlers
  registered under it, in the order of their registration; the dispatch awaits the
  handlers of the key in that order, and with no handler under the key it does nothing.
  A handler is run with the event and may change the channel and the caller's data, or
  raise. A handler's failure is isolated: it does not leave the dispatch, which goes on
  to the next handler with what the failed one had done; the one exception is a handler
  whose failure is the act of cancelling, \<^verbatim>\<open>CancelledError\<close>, which leaves the dispatch
  at once. The key is what \<^verbatim>\<open>handle\<close> passes, \<^verbatim>\<open>event.type\<close>, which is a member or
  \<^verbatim>\<open>None\<close>. \<^verbatim>\<open>SimpleTriggerCallback(function=ws.send_json, data=d)\<close> calls
  \<^verbatim>\<open>ws.send_json(data=d)\<close> whatever the event is.
\<close>

type_synonym 'u callback = "GraphQLSubscriptionEvent \<Rightarrow> 'u env \<Rightarrow> 'u env res"

type_synonym 'u CallbackRegistry = "GraphQLSubscriptionEventType option \<Rightarrow> 'u callback list"

definition SimpleTriggerCallback :: "json \<Rightarrow> 'u callback" where
  "SimpleTriggerCallback data = (\<lambda>ev env. send_json data env)"

definition register ::
  "GraphQLSubscriptionEventType option \<Rightarrow> 'u callback \<Rightarrow> 'u CallbackRegistry \<Rightarrow> 'u CallbackRegistry" where
  "register k cb reg = reg(k := reg k @ [cb])"

fun run_callbacks :: "'u callback list \<Rightarrow> GraphQLSubscriptionEvent \<Rightarrow> 'u env \<Rightarrow> 'u env res" where
  "run_callbacks [] ev env = Return env"
| "run_callbacks (cb # cbs) ev env =
     (case cb ev env of
        Raise e env' \<Rightarrow>
          if e = CancelledError then Raise e env' else run_callbacks cbs ev env'
      | Return env' \<Rightarrow> run_callbacks cbs ev env')"

definition handle_event ::
  "'u CallbackRegistry \<Rightarrow> GraphQLSubscriptionEventType option \<Rightarrow> GraphQLSubscriptionEvent \<Rightarrow>
   'u env \<Rightarrow> 'u env res" where
  "handle_event reg k ev env = run_callbacks (reg k) ev env"

section \<open>The subscription\<close>

text \<open>
  The dataclass is frozen, but its registry is a mutable object and its \<^verbatim>\<open>task\<close> is
  replaced through \<^verbatim>\<open>object.__setattr__\<close>, so the operations that touch either
  return the subscription they leave behind. A task handle is the number of the task
  in the event loop.
\<close>

record 'u GraphQLSubscription = GraphQLRequestContainer +
  sub_id :: string
  callbacks :: "'u CallbackRegistry"
  stop_event_types :: "GraphQLSubscriptionEventType list"
  task :: "nat option"

definition default_stop_event_types :: "GraphQLSubscriptionEventType list" where
  "default_stop_event_types = [ERROR, CONNECTION_ERROR, COMPLETE]"

definition headers_json :: "GraphQLRequest \<Rightarrow> json" where
  "headers_json r = JObj (map (\<lambda>(k, v). (k, JStr v)) (headers r))"

definition connection_init_request :: "'u GraphQLSubscription \<Rightarrow> json" where
  "connection_init_request sub =
     JObj [(''type'', JStr (enum_value CONNECTION_INIT)),
           (''payload'', JObj [(''headers'', headers_json (request sub))])]"

definition connection_start_request :: "'u GraphQLSubscription \<Rightarrow> json" where
  "connection_start_request sub =
     JObj [(''id'', JStr (sub_id sub)),
           (''type'', JStr (enum_value START)),
           (''payload'', request_payload (request sub))]"

definition connection_stop_request :: "'u GraphQLSubscription \<Rightarrow> json" where
  "connection_stop_request sub =
     JObj [(''id'', JStr (sub_id sub)), (''type'', JStr (enum_value STOP))]"

definition is_stop_event :: "'u GraphQLSubscription \<Rightarrow> GraphQLSubscriptionEvent \<Rightarrow> exn + bool" where
  "is_stop_event sub ev =
     (case event_type ev of
        Inl e \<Rightarrow> Inl e
      | Inr None \<Rightarrow> Inr False
      | Inr (Some t) \<Rightarrow> Inr (t \<in> set (stop_event_types sub)))"

definition handle :: "'u GraphQLSubscription \<Rightarrow> GraphQLSubscriptionEvent \<Rightarrow> 'u env \<Rightarrow> 'u env res" where
  "handle sub ev env =
     (case event_id ev of
        Inl e \<Rightarrow> Raise e env
      | Inr i \<Rightarrow>
          if i = JNull \<or> i = JStr (sub_id sub) then
            (case event_type ev of
               Inl e \<Rightarrow> Raise e env
             | Inr t \<Rightarrow> handle_event (callbacks sub) t ev env)
          else Return env)"

section \<open>The websocket session\<close>

text \<open>
  What \<^verbatim>\<open>async for msg in ws\<close> meets, one item an iteration: a message, or an
  exception raised while the loop waits for the next one (the \<^verbatim>\<open>CancelledError\<close> of
  a cancelled task arrives so). A \<open>TEXT\<close> message carries what \<^verbatim>\<open>msg.json()\<close> makes of
  it, \<open>None\<close> when the text does not decode. \<open>ERROR_MSG\<close> is
  \<^verbatim>\<open>aiohttp.WSMsgType.ERROR\<close>, \<open>OTHER_MSG\<close> any further message type that the
  iteration yields. The iteration ends where the list ends (the close message).
\<close>

datatype ws_msg = TEXT "json option" | ERROR_MSG | OTHER_MSG

datatype inbound = Message ws_msg | Raised exn

fun read_loop :: "'u GraphQLSubscription \<Rightarrow> inbound list \<Rightarrow> 'u env \<Rightarrow> 'u env res" where
  "read_loop sub [] env = Return env"
| "read_loop sub (Raised e # rest) env = Raise e env"
| "read_loop sub (Message ERROR_MSG # rest) env = Return env"
| "read_loop sub (Message OTHER_MSG # rest) env = read_loop sub rest env"
| "read_loop sub (Message (TEXT None) # rest) env = Raise JSONDecodeError env"
| "read_loop sub (Message (TEXT (Some j)) # rest) env =
     (let event = \<lparr>request = request sub, json = j, subscription_id = Some (sub_id sub)\<rparr>
      in case handle sub event env of
           Raise e env' \<Rightarrow> Raise e env'
         | Return env' \<Rightarrow>
             (case is_stop_event sub event of
                Inl e \<Rightarrow> Raise e env'
              | Inr True \<Rightarrow> Return env'
              | Inr False \<Rightarrow> read_loop sub rest env'))"

text \<open>
  \<^verbatim>\<open>try: ... except (asyncio.CancelledError, KeyboardInterrupt): await
  ws.send_json(data=self.connection_stop_request())\<close> around the loop.
\<close>

definition guarded_loop :: "'u GraphQLSubscription \<Rightarrow> inbound list \<Rightarrow> 'u env \<Rightarrow> 'u env res" where
  "guarded_loop sub inb env =
     (case read_loop sub inb env of
        Return env' \<Rightarrow> Return env'
      | Raise e env' \<Rightarrow>
          if e = CancelledError \<or> e = KeyboardInterrupt
          then send_json (connection_stop_request sub) env'
          else Raise e env')"

definition release :: "'u env res \<Rightarrow> 'u env res" where
  "release r =
     (case r of
        Return env \<Rightarrow> Return (env\<lparr>chan := (chan env)\<lparr>released := True\<rparr>\<rparr>)
      | Raise e env \<Rightarrow> Raise e (env\<lparr>chan := (chan env)\<lparr>released := True\<rparr>\<rparr>))"

text \<open>
  \<^verbatim>\<open>_create_websocket_session\<close>. \<open>connect\<close> is the outcome of
  \<^verbatim>\<open>session.ws_connect(endpoint)\<close>: \<open>Some e\<close> when opening the channel raises.
  The registry is changed by \<^verbatim>\<open>register\<close>, so the subscription is returned too:
  \<open>register_start\<close> is the subscription once the sender of the start frame is
  registered under \<open>CONNECTION_ACK\<close>.
\<close>

definition register_start :: "'u GraphQLSubscription \<Rightarrow> 'u GraphQLSubscription" where
  "register_start sub =
     sub\<lparr>callbacks :=
       register (Some CONNECTION_ACK)
         (SimpleTriggerCallback (connection_start_request sub))
         (callbacks sub)\<rparr>"

definition create_websocket_session ::
  "'u GraphQLSubscription \<Rightarrow> exn option \<Rightarrow> inbound list \<Rightarrow> 'u env \<Rightarrow>
   'u GraphQLSubscription \<times> 'u env res" where
  "create_websocket_session sub connect inb env =
     (case connect of
        Some e \<Rightarrow> (sub, Raise e env)
      | None \<Rightarrow>
          (case send_json (connection_init_request sub) env of
             Raise e env1 \<Rightarrow> (sub, release (Raise e env1))
           | Return env1 \<Rightarrow>
               (let sub1 = register_start sub
                in (sub1, release (guarded_loop sub1 inb env1)))))"

section \<open>Tasks, subscribe and unsubscribe\<close>

text \<open>
  An \<^verbatim>\<open>asyncio\<close> task is pending, pending with a cancellation requested, finished,
  or cancelled. \<^verbatim>\<open>done()\<close> holds in the last two, \<^verbatim>\<open>cancelled()\<close> in the last.
  \<^verbatim>\<open>cancel()\<close> only requests: the task is cancelled when the loop next runs it.
  The event loop numbers its tasks in the order they were made; \<open>spawned\<close> keeps, for
  each, the endpoint and the session its coroutine was given.
\<close>

datatype task_state = Pending | Cancelling | Finished | Cancelled

fun task_done :: "task_state \<Rightarrow> bool" where
  "task_done Finished = True"
| "task_done Cancelled = True"
| "task_done _ = False"

fun task_cancelled :: "task_state \<Rightarrow> bool" where
  "task_cancelled Cancelled = True"
| "task_cancelled _ = False"

record 'c asyncio =
  status :: "nat \<Rightarrow> task_state"
  spawned :: "(string \<times> 'c) list"

definition cancel :: "nat \<Rightarrow> 'c asyncio \<Rightarrow> 'c asyncio" where
  "cancel t lp =
     lp\<lparr>status := (status lp)(t := (case status lp t of Pending \<Rightarrow> Cancelling | s \<Rightarrow> s))\<rparr>"

definition is_running :: "'u GraphQLSubscription \<Rightarrow> 'c asyncio \<Rightarrow> bool" where
  "is_running sub lp =
     (case task sub of
        None \<Rightarrow> False
      | Some t \<Rightarrow> \<not> task_done (status lp t) \<and> \<not> task_cancelled (status lp t))"

definition is_complete :: "'u GraphQLSubscription \<Rightarrow> 'c asyncio \<Rightarrow> bool" where
  "is_complete sub lp =
     (case task sub of
        None \<Rightarrow> False
      | Some t \<Rightarrow> task_done (status lp t) \<or> task_cancelled (status lp t))"

text \<open>
  \<^verbatim>\<open>unsubscribe\<close>. \<^verbatim>\<open>Task.cancel()\<close> does not raise, so the
  \<^verbatim>\<open>except CancelledError: pass\<close> around it has nothing to catch.
\<close>

definition unsubscribe ::
  "'u GraphQLSubscription \<Rightarrow> 'c asyncio \<Rightarrow> 'u GraphQLSubscription \<times> 'c asyncio" where
  "unsubscribe sub lp =
     (let lp' = (if is_running sub lp
                 then (case task sub of Some t \<Rightarrow> cancel t lp | None \<Rightarrow> lp)
                 else lp)
      in (sub\<lparr>task := None\<rparr>, lp'))"

text \<open>
  \<^verbatim>\<open>subscribe\<close> is written as a plain \<^verbatim>\<open>def\<close>, and its branch without a session has
  \<^verbatim>\<open>connector = await create_default_connector()\<close> (line 158). Python takes \<^verbatim>\<open>await\<close>
  only inside \<^verbatim>\<open>async def\<close>: it rejects the function with \<^verbatim>\<open>SyntaxError\<close> when it
  compiles it, so that no statement of the body is ever run, the guard
  \<^verbatim>\<open>if self.is_running and not force: return\<close> at its head included. Every call has
  the outcome \<^verbatim>\<open>SyntaxError\<close>, with the subscription and the event loop as they were.
\<close>

definition subscribe ::
  "'u GraphQLSubscription \<Rightarrow> string \<Rightarrow> bool \<Rightarrow> 'c option \<Rightarrow> 'c asyncio \<Rightarrow>
   ('u GraphQLSubscription \<times> 'c asyncio) res" where
  "subscribe sub endpoint force session lp = Raise SyntaxError (sub, lp)"

section \<open>A concrete subscription\<close>

text \<open>
  A request, two handlers, a registry and a fresh channel, on which the statements below
  are evaluated. The caller's data is a counter of the events its handlers have seen.
\<close>

definition example_request :: GraphQLRequest where
  "example_request =
     \<lparr>headers = [(''Authorization'', ''Bearer t'')],
      request_payload = JObj [(''query'', JStr ''subscription { tick }''), (''variables'', JObj [])]\<rparr>"

definition count_callback :: "nat callback" where
  "count_callback = (\<lambda>ev env. Return (env\<lparr>user := Suc (user env)\<rparr>))"

definition failing_callback :: "nat callback" where
  "failing_callback = (\<lambda>ev env. Raise (Exception ''handler failed'') env)"

definition example_callbacks :: "nat CallbackRegistry" where
  "example_callbacks = (\<lambda>k. [])(Some DATA := [count_callback], Some COMPLETE := [count_callback])"

definition example_subscription :: "nat GraphQLSubscription" where
  "example_subscription =
     \<lparr>request = example_request, sub_id = ''sub-1'', callbacks = example_callbacks,
      stop_event_types = default_stop_event_types, task = None\<rparr>"

definition example_env :: "nat env" where
  "example_env = \<lparr>chan = \<lparr>calls = [], outcomes = [], released = False\<rparr>, user = 0\<rparr>"

definition event_of :: "json \<Rightarrow> GraphQLSubscriptionEvent" where
  "event_of j = \<lparr>request = example_request, json = j, subscription_id = Some ''sub-1''\<rparr>"

definition running_loop :: "string asyncio" where
  "running_loop = \<lparr>status = (\<lambda>t. Pending), spawned = [(''wss://example/graphql'', ''session'')]\<rparr>"

definition finished_loop :: "string asyncio" where
  "finished_loop = \<lparr>status = (\<lambda>t. Finished), spawned = [(''wss://example/graphql'', ''session'')]\<rparr>"

definition faulty_subscription :: "nat GraphQLSubscription" where
  "faulty_subscription =
     example_subscription\<lparr>callbacks := (example_callbacks)(Some KEEP_ALIVE := [failing_callback])\<rparr>"

definition closing_env :: "nat env" where
  "closing_env =
     \<lparr>chan = \<lparr>calls = [], outcomes = [None, Some ConnectionResetError], released = False\<rparr>, user = 0\<rparr>"

definition ack_frame :: json where
  "ack_frame = JObj [(''type'', JStr ''connection_ack'')]"

definition data_frame :: json where
  "data_frame =
     JObj [(''id'', JStr ''sub-1''), (''type'', JStr ''data''),
           (''payload'', JObj [(''data'', JObj [(''foo'', JInt 1)])])]"

definition complete_frame :: json where
  "complete_frame = JObj [(''id'', JStr ''sub-1''), (''type'', JStr ''complete'')]"

definition ka_frame :: json where
  "ka_frame = JObj [(''type'', JStr ''ka'')]"

definition catchall_subscription :: "nat GraphQLSubscription" where
  "catchall_subscription =
     example_subscription\<lparr>callbacks := (example_callbacks)(None := [count_callback])\<rparr>"

definition foreign_complete_frame :: json where
  "foreign_complete_frame = JObj [(''id'', JStr ''sub-2''), (''type'', JStr ''complete'')]"

section \<open>Classification of frames\<close>

lemma enum_by_value_member: "enum_by_value (JStr (enum_value m)) = Some m"
  by (cases m) (simp_all add: enum_members_def)

lemma set_enum_members: "set enum_members = UNIV"
proof -
  have "m \<in> set enum_members" for m
    by (cases m) (simp_all add: enum_members_def)
  then show ?thesis by auto
qed

lemma enum_by_value_None_iff: "enum_by_value v = None \<longleftrightarrow> (\<forall>m. v \<noteq> JStr (enum_value m))"
proof (cases v)
  case (JStr s)
  then show ?thesis
    by (auto simp: find_None_iff set_enum_members)
qed simp_all

lemma event_id_object: "event_id ev = Inr i \<Longrightarrow> \<exists>kvs. json ev = JObj kvs"
  by (cases "json ev") (simp_all add: event_id_def)

lemma event_type_object: "json ev = JObj kvs \<Longrightarrow> \<exists>t. event_type ev = Inr t"
  by (simp add: event_type_def)

section \<open>Dispatch through \<^verbatim>\<open>handle\<close>\<close>

text \<open>
  C1. For an event whose frame-level id reads as \<open>i\<close>: when \<open>i\<close> is \<^verbatim>\<open>None\<close> or the
  subscription's own id, \<^verbatim>\<open>handle\<close> is exactly the registry's dispatch of the event
  under its kind; when \<open>i\<close> is anything else, \<^verbatim>\<open>handle\<close> returns with the channel and
  the caller's data as they were, so no handler has run.
\<close>

theorem handle_dispatch_iff:
  assumes "event_id ev = Inr i"
  shows "(i = JNull \<or> i = JStr (sub_id sub) \<longrightarrow>
            (\<exists>t. event_type ev = Inr t \<and> handle sub ev env = handle_event (callbacks sub) t ev env))
       \<and> (i \<noteq> JNull \<and> i \<noteq> JStr (sub_id sub) \<longrightarrow> handle sub ev env = Return env)"
proof -
  from assms obtain kvs where "json ev = JObj kvs"
    using event_id_object by blast
  then obtain t where t: "event_type ev = Inr t"
    using event_type_object by blast
  show ?thesis
    using assms t by (simp add: handle_def)
qed

theorem handle_dispatch_iff_witness:
  "event_id (event_of (JObj [(''id'', JStr ''sub-2''), (''type'', JStr ''data'')])) = Inr (JStr ''sub-2'')
   \<and> handle example_subscription (event_of (JObj [(''id'', JStr ''sub-2''), (''type'', JStr ''data'')])) example_env
       = Return example_env
   \<and> event_id (event_of (JObj [(''id'', JStr ''sub-1''), (''type'', JStr ''data'')])) = Inr (JStr ''sub-1'')
   \<and> handle example_subscription (event_of (JObj [(''id'', JStr ''sub-1''), (''type'', JStr ''data'')])) example_env
       = Return (example_env\<lparr>user := 1\<rparr>)"
proof -
  let ?other = "event_of (JObj [(''id'', JStr ''sub-2''), (''type'', JStr ''data'')])"
  let ?own = "event_of (JObj [(''id'', JStr ''sub-1''), (''type'', JStr ''data'')])"
  have a: "event_id ?other = Inr (JStr ''sub-2'')"
    by (simp add: event_id_def event_of_def)
  have b: "event_id ?own = Inr (JStr ''sub-1'')"
    by (simp add: event_id_def event_of_def)
  have c: "event_type ?own = Inr (Some DATA)"
    by (simp add: event_type_def event_of_def enum_members_def)
  have d: "handle_event (callbacks example_subscription) (Some DATA) ?own example_env
             = Return (example_env\<lparr>user := 1\<rparr>)"
    by (simp add: handle_event_def example_subscription_def example_callbacks_def
        count_callback_def example_env_def)
  from handle_dispatch_iff [OF a, of example_subscription example_env]
  have "handle example_subscription ?other example_env = Return example_env"
    by (simp add: example_subscription_def)
  moreover from handle_dispatch_iff [OF b, of example_subscription example_env] c d
  have "handle example_subscription ?own example_env = Return (example_env\<lparr>user := 1\<rparr>)"
    by (simp add: example_subscription_def)
  ultimately show ?thesis using a b by simp
qed

section \<open>The \<^verbatim>\<open>type\<close> and \<^verbatim>\<open>payload\<close> properties\<close>

text \<open>
  C2, as stated, fails: a \<open>data\<close> frame without a payload has kind \<open>DATA\<close>, and its
  \<^verbatim>\<open>payload\<close> is \<^verbatim>\<open>None\<close>, not a response around the request.
\<close>

theorem data_without_payload_is_None:
  "event_type (event_of (JObj [(''id'', JStr ''sub-1''), (''type'', JStr ''data'')])) = Inr (Some DATA)
   \<and> event_payload (event_of (JObj [(''id'', JStr ''sub-1''), (''type'', JStr ''data'')])) = Inr (Plain JNull)
   \<and> event_payload (event_of (JObj [(''id'', JStr ''sub-1''), (''type'', JStr ''data'')]))
       \<noteq> Inr (GraphQLResponse example_request JNull)"
  by (simp add: event_type_def event_payload_def event_of_def enum_members_def)

text \<open>
  C2, amended. For an event whose frame payload reads as \<open>p\<close> and whose kind is \<open>t\<close>:
  when \<open>p\<close> is not \<^verbatim>\<open>None\<close> and the kind is \<open>DATA\<close> or \<open>ERROR\<close>, \<^verbatim>\<open>payload\<close> is the
  response made of the event's request and \<open>p\<close>; when the kind is neither, \<^verbatim>\<open>payload\<close>
  is \<open>p\<close> itself, never a response.
\<close>

theorem payload_by_kind:
  assumes "dict_get (json ev) ''payload'' = Inr p" and "event_type ev = Inr t"
  shows "(p \<noteq> JNull \<and> (t = Some DATA \<or> t = Some ERROR) \<longrightarrow>
            event_payload ev = Inr (GraphQLResponse (request ev) p))
       \<and> (t \<noteq> Some DATA \<and> t \<noteq> Some ERROR \<longrightarrow> event_payload ev = Inr (Plain p))"
  using assms by (auto simp: event_payload_def)

theorem payload_by_kind_witness:
  "event_payload (event_of (JObj [(''type'', JStr ''error''), (''payload'', JStr ''boom'')]))
     = Inr (GraphQLResponse example_request (JStr ''boom''))
   \<and> event_payload (event_of (JObj [(''type'', JStr ''connection_error''), (''payload'', JStr ''boom'')]))
     = Inr (Plain (JStr ''boom''))"
proof -
  let ?e = "event_of (JObj [(''type'', JStr ''error''), (''payload'', JStr ''boom'')])"
  let ?c = "event_of (JObj [(''type'', JStr ''connection_error''), (''payload'', JStr ''boom'')])"
  have pe: "dict_get (json ?e) ''payload'' = Inr (JStr ''boom'')"
    by (simp add: event_of_def)
  have te: "event_type ?e = Inr (Some ERROR)"
    by (simp add: event_type_def event_of_def enum_members_def)
  have pc: "dict_get (json ?c) ''payload'' = Inr (JStr ''boom'')"
    by (simp add: event_of_def)
  have tc: "event_type ?c = Inr (Some CONNECTION_ERROR)"
    by (simp add: event_type_def event_of_def enum_members_def)
  show ?thesis
    using payload_by_kind [OF pe te] payload_by_kind [OF pc tc]
    by (simp add: event_of_def)
qed

text \<open>
  C10. When the frame has no payload (the key is missing or null), \<^verbatim>\<open>payload\<close> is
  \<^verbatim>\<open>None\<close> whatever the kind of the event, \<open>DATA\<close> and \<open>ERROR\<close> included.
\<close>

theorem missing_payload_is_None:
  assumes "dict_get (json ev) ''payload'' = Inr JNull"
  shows "event_payload ev = Inr (Plain JNull)"
  using assms by (simp add: event_payload_def)

theorem missing_payload_is_None_witness:
  "dict_get (json (event_of (JObj [(''type'', JStr ''error''), (''payload'', JNull)]))) ''payload'' = Inr JNull
   \<and> event_type (event_of (JObj [(''type'', JStr ''error''), (''payload'', JNull)])) = Inr (Some ERROR)
   \<and> event_payload (event_of (JObj [(''type'', JStr ''error''), (''payload'', JNull)])) = Inr (Plain JNull)
   \<and> event_payload (event_of (JObj [(''type'', JStr ''data'')])) = Inr (Plain JNull)"
proof -
  let ?e = "event_of (JObj [(''type'', JStr ''error''), (''payload'', JNull)])"
  let ?d = "event_of (JObj [(''type'', JStr ''data'')])"
  have pe: "dict_get (json ?e) ''payload'' = Inr JNull"
    by (simp add: event_of_def)
  have pd: "dict_get (json ?d) ''payload'' = Inr JNull"
    by (simp add: event_of_def)
  have te: "event_type ?e = Inr (Some ERROR)"
    by (simp add: event_type_def event_of_def enum_members_def)
  show ?thesis
    using missing_payload_is_None [OF pe] missing_payload_is_None [OF pd] pe te by simp
qed

text \<open>
  C3, as stated, fails twice. A handler can be registered under the key \<^verbatim>\<open>None\<close>, and
  then a frame of the unknown type \<open>pong\<close> is dispatched to it: the counter goes from 0
  to 1. And a frame that is not a JSON object, here the array \<open>[]\<close>, has no
  \<^verbatim>\<open>get\<close>: reading its type raises \<^verbatim>\<open>AttributeError\<close>.
\<close>

theorem unrecognized_type_can_dispatch:
  "event_type (event_of (JObj [(''type'', JStr ''pong'')])) = Inr None
   \<and> handle catchall_subscription (event_of (JObj [(''type'', JStr ''pong'')])) example_env
       = Return (example_env\<lparr>user := 1\<rparr>)
   \<and> event_type (event_of (JList [])) = Inl AttributeError"
  by (simp add: event_type_def event_of_def enum_members_def handle_def event_id_def
      handle_event_def catchall_subscription_def count_callback_def example_env_def)

text \<open>
  C3, amended. For a frame that is a JSON object and whose \<open>type\<close> field (\<^verbatim>\<open>None\<close> when
  it is missing) is the value of none of the ten members, the \<^verbatim>\<open>type\<close> property
  returns \<^verbatim>\<open>None\<close> and does not raise, and the event is not a stop event. The event is
  dispatched under the key \<^verbatim>\<open>None\<close>: when no handler is registered under that key, the
  registry's dispatch and \<^verbatim>\<open>handle\<close> return with nothing changed.
\<close>

theorem unrecognized_type_is_inert:
  assumes "dict_get (json ev) ''type'' = Inr v"
      and "\<forall>m. v \<noteq> JStr (enum_value m)"
  shows "event_type ev = Inr None
       \<and> is_stop_event sub ev = Inr False
       \<and> (callbacks sub None = [] \<longrightarrow>
             handle_event (callbacks sub) None ev env = Return env
           \<and> handle sub ev env = Return env)"
proof -
  have t: "event_type ev = Inr None"
    using assms by (simp add: event_type_def enum_by_value_None_iff)
  from assms(1) obtain kvs where "json ev = JObj kvs"
    by (cases "json ev") simp_all
  then obtain i where i: "event_id ev = Inr i"
    by (simp add: event_id_def)
  have "handle sub ev env = Return env" if "callbacks sub None = []"
    using that t i by (simp add: handle_def handle_event_def)
  then show ?thesis
    using t by (simp add: is_stop_event_def handle_event_def)
qed

theorem unrecognized_type_is_inert_witness:
  "handle example_subscription (event_of (JObj [(''type'', JStr ''pong''), (''payload'', JInt 1)])) example_env
     = Return example_env
   \<and> event_type (event_of (JObj [(''type'', JStr ''pong''), (''payload'', JInt 1)])) = Inr None
   \<and> event_type (event_of (JObj [(''id'', JStr ''sub-1'')])) = Inr None
   \<and> handle example_subscription (event_of (JObj [(''id'', JStr ''sub-1'')])) example_env = Return example_env"
proof -
  let ?p = "event_of (JObj [(''type'', JStr ''pong''), (''payload'', JInt 1)])"
  let ?a = "event_of (JObj [(''id'', JStr ''sub-1'')])"
  have vp: "dict_get (json ?p) ''type'' = Inr (JStr ''pong'')"
    by (simp add: event_of_def)
  have np: "\<forall>m. JStr ''pong'' \<noteq> JStr (enum_value m)"
  proof
    fix m show "JStr ''pong'' \<noteq> JStr (enum_value m)" by (cases m) simp_all
  qed
  have va: "dict_get (json ?a) ''type'' = Inr JNull"
    by (simp add: event_of_def)
  have na: "\<forall>m. JNull \<noteq> JStr (enum_value m)"
    by simp
  have r: "callbacks example_subscription None = []"
    by (simp add: example_subscription_def example_callbacks_def)
  show ?thesis
    using unrecognized_type_is_inert [OF vp np, of example_subscription example_env]
      unrecognized_type_is_inert [OF va na, of example_subscription example_env] r
    by simp
qed

section \<open>Subscribing and unsubscribing\<close>

text \<open>
  C6. The guard at the head of \<^verbatim>\<open>subscribe\<close> would make a call without \<open>force\<close> on a
  running subscription a no-op, but it is never reached: such a call does not return,
  it has the outcome \<^verbatim>\<open>SyntaxError\<close> that the \<^verbatim>\<open>await\<close> in the plain \<^verbatim>\<open>def\<close>
  brings; the task handle and the event loop stay as they were.
\<close>

theorem subscribe_is_rejected:
  "is_running (example_subscription\<lparr>task := Some 0\<rparr>) running_loop
   \<and> subscribe (example_subscription\<lparr>task := Some 0\<rparr>) ''wss://example/graphql'' False
        (Some ''session'') running_loop
     = Raise SyntaxError (example_subscription\<lparr>task := Some 0\<rparr>, running_loop)"
  by (simp add: is_running_def running_loop_def subscribe_def)

text \<open>
  C7, as stated, fails: a subscription whose task has finished is not running, yet
  \<^verbatim>\<open>unsubscribe\<close> replaces its task handle by \<^verbatim>\<open>None\<close>, and \<open>is_complete\<close> turns
  from true to false.
\<close>

theorem unsubscribe_clears_finished_task:
  "\<not> is_running (example_subscription\<lparr>task := Some 0\<rparr>) finished_loop
   \<and> task (example_subscription\<lparr>task := Some 0\<rparr>) = Some 0
   \<and> task (fst (unsubscribe (example_subscription\<lparr>task := Some 0\<rparr>) finished_loop)) = None
   \<and> is_complete (example_subscription\<lparr>task := Some 0\<rparr>) finished_loop
   \<and> \<not> is_complete (fst (unsubscribe (example_subscription\<lparr>task := Some 0\<rparr>) finished_loop)) finished_loop"
  by (simp add: is_running_def is_complete_def finished_loop_def unsubscribe_def)

text \<open>
  C7, amended. On a subscription that is not running, \<^verbatim>\<open>unsubscribe\<close> cancels nothing
  (the event loop is as it was) and changes no field but the task handle, which it sets
  to \<^verbatim>\<open>None\<close>; the subscription is unchanged when there was no task.
\<close>

theorem unsubscribe_not_running:
  assumes "\<not> is_running sub lp"
  shows "unsubscribe sub lp = (sub\<lparr>task := None\<rparr>, lp)
       \<and> (task sub = None \<longrightarrow> unsubscribe sub lp = (sub, lp))"
  using assms by (auto simp: unsubscribe_def)

theorem unsubscribe_not_running_witness:
  "\<not> is_running example_subscription finished_loop
   \<and> unsubscribe example_subscription finished_loop = (example_subscription, finished_loop)
   \<and> \<not> is_running (example_subscription\<lparr>task := Some 0\<rparr>) finished_loop
   \<and> unsubscribe (example_subscription\<lparr>task := Some 0\<rparr>) finished_loop
       = (example_subscription, finished_loop)"
proof -
  have a: "\<not> is_running example_subscription finished_loop"
    by (simp add: is_running_def example_subscription_def)
  have b: "\<not> is_running (example_subscription\<lparr>task := Some 0\<rparr>) finished_loop"
    by (simp add: is_running_def finished_loop_def)
  have n: "task example_subscription = None"
    by (simp add: example_subscription_def)
  have e: "example_subscription\<lparr>task := Some 0, task := None\<rparr> = example_subscription"
    by (simp add: example_subscription_def)
  show ?thesis
    using a b n e unsubscribe_not_running [OF a] unsubscribe_not_running [OF b] by simp
qed

section \<open>The read loop and the session\<close>

lemma send_json_calls:
  "calls (chan (state_of (send_json d env))) = calls (chan env) @ [d]"
  by (simp add: send_json_def Let_def split: list.splits option.splits)

lemma send_json_raises:
  "outcomes (chan env) = Some x # rest \<Longrightarrow> \<exists>s. send_json d env = Raise x s"
  by (simp add: send_json_def Let_def)

lemma send_json_returns:
  "outcomes (chan env) = [] \<or> (\<exists>rest. outcomes (chan env) = None # rest) \<Longrightarrow>
   \<exists>s. send_json d env = Return s"
  by (auto simp: send_json_def Let_def)

lemma released_release: "released (chan (state_of (release r)))"
  by (cases r) (simp_all add: release_def)

lemma calls_release: "calls (chan (state_of (release r))) = calls (chan (state_of r))"
  by (cases r) (simp_all add: release_def)

lemma release_cases:
  "(\<exists>s. r = Raise x s) \<Longrightarrow> \<exists>s. release r = Raise x s"
  "(\<exists>s. r = Return s) \<Longrightarrow> \<exists>s. release r = Return s"
  by (auto simp: release_def)

lemma register_start_fields:
  "sub_id (register_start sub) = sub_id sub"
  "request (register_start sub) = request sub"
  "stop_event_types (register_start sub) = stop_event_types sub"
  "connection_stop_request (register_start sub) = connection_stop_request sub"
  by (simp_all add: register_start_def connection_stop_request_def)

lemma session_after_init:
  "send_json (connection_init_request sub) env = Return env1 \<Longrightarrow>
   create_websocket_session sub None inb env
     = (register_start sub, release (guarded_loop (register_start sub) inb env1))"
  by (simp add: create_websocket_session_def Let_def)

lemma handle_non_object:
  "\<forall>kvs. json ev \<noteq> JObj kvs \<Longrightarrow> handle sub ev env = Raise AttributeError env"
  by (cases "json ev") (simp_all add: handle_def event_id_def)

lemma session_ack_data_complete:
  "snd (create_websocket_session example_subscription None
          [Message (TEXT (Some ack_frame)), Message (TEXT (Some data_frame)),
           Message (TEXT (Some complete_frame)), Message (TEXT (Some data_frame))] example_env)
   = Return
       \<lparr>chan = \<lparr>calls = [connection_init_request example_subscription,
                         connection_start_request example_subscription],
                outcomes = [], released = True\<rparr>,
        user = 2\<rparr>"
  by (simp add: create_websocket_session_def example_env_def guarded_loop_def release_def
      Let_def handle_def event_id_def event_type_def is_stop_event_def handle_event_def
      ack_frame_def data_frame_def complete_frame_def enum_members_def register_start_def
      register_def example_subscription_def example_callbacks_def SimpleTriggerCallback_def
      count_callback_def send_json_def default_stop_event_types_def)

lemma run_callbacks_returns:
  "\<forall>cb env0 env1. cb \<in> set cbs \<longrightarrow> cb ev env0 \<noteq> Raise CancelledError env1 \<Longrightarrow>
   \<exists>env'. run_callbacks cbs ev env = Return env'"
proof (induction cbs arbitrary: env)
  case Nil
  then show ?case by simp
next
  case (Cons cb cbs)
  then have tl: "\<And>s. \<exists>env'. run_callbacks cbs ev s = Return env'"
    by simp
  show ?case
  proof (cases "cb ev env")
    case (Return s)
    then show ?thesis using tl by simp
  next
    case (Raise e s)
    with Cons.prems have "e \<noteq> CancelledError"
      by auto
    then show ?thesis using Raise tl by simp
  qed
qed

text \<open>
  C4, as stated, fails: a \<open>complete\<close> frame that bears the id of another subscription
  is a stop event and ends the loop, yet \<^verbatim>\<open>handle\<close> drops it, so that it is never
  delivered to the registry: the handler registered under \<open>COMPLETE\<close> does not run (the
  counter stays at 0).
\<close>

theorem foreign_stop_event_not_delivered:
  "is_stop_event example_subscription (event_of foreign_complete_frame) = Inr True
   \<and> handle example_subscription (event_of foreign_complete_frame) example_env = Return example_env
   \<and> handle_event (callbacks example_subscription) (Some COMPLETE) (event_of foreign_complete_frame)
        example_env = Return (example_env\<lparr>user := 1\<rparr>)
   \<and> guarded_loop example_subscription
        [Message (TEXT (Some foreign_complete_frame)), Message (TEXT (Some data_frame))] example_env
       = Return example_env"
  by (simp add: is_stop_event_def event_type_def event_of_def foreign_complete_frame_def
      enum_members_def example_subscription_def default_stop_event_types_def handle_def
      event_id_def guarded_loop_def Let_def example_request_def handle_event_def
      example_callbacks_def count_callback_def example_env_def)

text \<open>
  C4, amended. When the loop reads a text frame whose event has a kind among the
  subscription's stop kinds and a frame-level id that is \<^verbatim>\<open>None\<close> or the subscription's
  own, \<^verbatim>\<open>handle\<close> delivers the event to the registry, dispatched under its kind, and
  what the loop does from this frame on is that dispatch and nothing more: the frames
  behind it are not read, and once the dispatch has returned the loop under its
  \<^verbatim>\<open>except\<close> clause returns with the state the dispatch left, so that no stop frame is
  sent. The default stop kinds are \<open>ERROR\<close>, \<open>CONNECTION_ERROR\<close> and \<open>COMPLETE\<close>.
\<close>

theorem stop_event_ends_loop:
  assumes "ev = \<lparr>request = request sub, json = j, subscription_id = Some (sub_id sub)\<rparr>"
      and "event_id ev = Inr i" and "i = JNull \<or> i = JStr (sub_id sub)"
      and "event_type ev = Inr (Some t)"
      and "t \<in> set (stop_event_types sub)"
  shows "handle sub ev env = handle_event (callbacks sub) (Some t) ev env
       \<and> read_loop sub (Message (TEXT (Some j)) # rest) env
           = handle_event (callbacks sub) (Some t) ev env
       \<and> (\<forall>env'. handle_event (callbacks sub) (Some t) ev env = Return env' \<longrightarrow>
             guarded_loop sub (Message (TEXT (Some j)) # rest) env = Return env')
       \<and> set default_stop_event_types = {ERROR, CONNECTION_ERROR, COMPLETE}"
proof -
  have h: "handle sub ev env = handle_event (callbacks sub) (Some t) ev env"
    using assms(2-4) by (auto simp: handle_def)
  have s: "is_stop_event sub ev = Inr True"
    using assms(4,5) by (simp add: is_stop_event_def)
  have l: "read_loop sub (Message (TEXT (Some j)) # rest) env
             = handle_event (callbacks sub) (Some t) ev env"
    using s h assms(1) by (simp add: Let_def split: res.splits)
  show ?thesis
    using h l by (auto simp: guarded_loop_def default_stop_event_types_def)
qed

theorem stop_event_ends_loop_witness:
  "guarded_loop example_subscription
     [Message (TEXT (Some complete_frame)), Message (TEXT (Some data_frame))] example_env
   = Return (example_env\<lparr>user := 1\<rparr>)"
proof -
  let ?ev = "\<lparr>request = request example_subscription, json = complete_frame,
              subscription_id = Some (sub_id example_subscription)\<rparr>"
  have i: "event_id ?ev = Inr (JStr ''sub-1'')"
    by (simp add: event_id_def complete_frame_def)
  have o: "JStr ''sub-1'' = JNull \<or> JStr ''sub-1'' = JStr (sub_id example_subscription)"
    by (simp add: example_subscription_def)
  have t: "event_type ?ev = Inr (Some COMPLETE)"
    by (simp add: event_type_def complete_frame_def enum_members_def)
  have m: "COMPLETE \<in> set (stop_event_types example_subscription)"
    by (simp add: example_subscription_def default_stop_event_types_def)
  have h: "handle_event (callbacks example_subscription) (Some COMPLETE) ?ev example_env
             = Return (example_env\<lparr>user := 1\<rparr>)"
    by (simp add: handle_event_def example_subscription_def example_callbacks_def
        count_callback_def example_env_def)
  show ?thesis
    using stop_event_ends_loop [OF refl i o t m, of example_env
        "[Message (TEXT (Some data_frame))]"] h
    by simp
qed

text \<open>
  C9. When none of the handlers registered for the kind of an event raises
  \<^verbatim>\<open>CancelledError\<close> on it, whatever else they raise, \<^verbatim>\<open>handle\<close> returns, and the read
  loop goes on: it ends normally when the event is a stop event, and otherwise reads the
  frames behind it from the state \<^verbatim>\<open>handle\<close> left.
\<close>

theorem handler_exception_isolated:
  assumes "ev = \<lparr>request = request sub, json = j, subscription_id = Some (sub_id sub)\<rparr>"
      and "event_id ev = Inr i"
      and "event_type ev = Inr t"
      and "\<forall>cb env0 env1. cb \<in> set (callbacks sub t) \<longrightarrow> cb ev env0 \<noteq> Raise CancelledError env1"
  shows "\<exists>env'. handle sub ev env = Return env'
           \<and> read_loop sub (Message (TEXT (Some j)) # rest) env
               = (if is_stop_event sub ev = Inr True then Return env'
                  else read_loop sub rest env')"
proof -
  obtain d where d: "handle_event (callbacks sub) t ev env = Return d"
    using run_callbacks_returns [OF assms(4), of env] by (auto simp: handle_event_def)
  have "\<exists>env'. handle sub ev env = Return env'"
    using assms(2,3) d by (simp add: handle_def)
  then obtain env' where h: "handle sub ev env = Return env'"
    by blast
  have "\<exists>b. is_stop_event sub ev = Inr b"
    using assms(3) by (cases t) (auto simp: is_stop_event_def)
  then obtain b where b: "is_stop_event sub ev = Inr b"
    by blast
  have "read_loop sub (Message (TEXT (Some j)) # rest) env
          = (if is_stop_event sub ev = Inr True then Return env' else read_loop sub rest env')"
    using h b assms(1) by (cases b) (simp_all add: Let_def)
  then show ?thesis
    using h by blast
qed

theorem handler_exception_isolated_witness:
  "failing_callback (event_of ka_frame) example_env
     = Raise (Exception ''handler failed'') example_env
   \<and> read_loop faulty_subscription
        [Message (TEXT (Some ka_frame)), Message (TEXT (Some data_frame))] example_env
       = Return (example_env\<lparr>user := 1\<rparr>)"
proof -
  let ?ev = "\<lparr>request = request faulty_subscription, json = ka_frame,
              subscription_id = Some (sub_id faulty_subscription)\<rparr>"
  have i: "event_id ?ev = Inr JNull"
    by (simp add: event_id_def ka_frame_def)
  have t: "event_type ?ev = Inr (Some KEEP_ALIVE)"
    by (simp add: event_type_def ka_frame_def enum_members_def)
  have c: "\<forall>cb env0 env1. cb \<in> set (callbacks faulty_subscription (Some KEEP_ALIVE)) \<longrightarrow>
             cb ?ev env0 \<noteq> Raise CancelledError env1"
    by (simp add: faulty_subscription_def failing_callback_def)
  have h: "handle faulty_subscription ?ev example_env = Return example_env"
    unfolding handle_def i t
    by (simp add: handle_event_def faulty_subscription_def failing_callback_def)
  have s: "is_stop_event faulty_subscription ?ev = Inr False"
    unfolding is_stop_event_def t
    by (simp add: faulty_subscription_def example_subscription_def default_stop_event_types_def)
  have d: "read_loop faulty_subscription [Message (TEXT (Some data_frame))] example_env
             = Return (example_env\<lparr>user := 1\<rparr>)"
    by (simp add: Let_def handle_def event_id_def event_type_def is_stop_event_def
        handle_event_def data_frame_def enum_members_def faulty_subscription_def
        example_subscription_def example_callbacks_def count_callback_def example_env_def
        default_stop_event_types_def)
  have f: "failing_callback (event_of ka_frame) example_env
             = Raise (Exception ''handler failed'') example_env"
    by (simp add: failing_callback_def)
  from handler_exception_isolated [OF refl i t c, of example_env
      "[Message (TEXT (Some data_frame))]"]
  have "read_loop faulty_subscription
          [Message (TEXT (Some ka_frame)), Message (TEXT (Some data_frame))] example_env
        = Return (example_env\<lparr>user := 1\<rparr>)"
    using h s d by simp
  then show ?thesis
    using f by simp
qed

text \<open>
  C5, as stated, fails: the task is cancelled while the loop waits, the transport
  refuses the stop frame with \<^verbatim>\<open>ConnectionResetError\<close>, and the session ends with
  that exception: the failure of the send is neither caught nor discarded.
\<close>

theorem cancel_stop_send_failure:
  "snd (create_websocket_session example_subscription None [Raised CancelledError] closing_env)
   = Raise ConnectionResetError
       \<lparr>chan = \<lparr>calls = [connection_init_request example_subscription,
                         connection_stop_request example_subscription],
                outcomes = [], released = True\<rparr>,
        user = 0\<rparr>"
  by (simp add: create_websocket_session_def send_json_def closing_env_def Let_def
      guarded_loop_def release_def register_start_fields)

text \<open>
  C5, amended. When \<^verbatim>\<open>CancelledError\<close> or \<^verbatim>\<open>KeyboardInterrupt\<close> is raised inside the
  read loop, the session makes exactly one more call on the channel, the send of the stop
  frame, which carries the subscription id and the type \<open>stop\<close>. The channel is released
  whatever the send does. When the send goes through the session returns; when it
  raises, its exception is not caught and leaves the session.
\<close>

theorem cancellation_sends_stop_once:
  assumes "send_json (connection_init_request sub) env = Return env1"
      and "read_loop (register_start sub) inb env1 = Raise e env2"
      and "e = CancelledError \<or> e = KeyboardInterrupt"
  shows "snd (create_websocket_session sub None inb env)
           = release (send_json (connection_stop_request sub) env2)
       \<and> connection_stop_request sub = JObj [(''id'', JStr (sub_id sub)), (''type'', JStr ''stop'')]
       \<and> calls (chan (state_of (snd (create_websocket_session sub None inb env))))
           = calls (chan env2) @ [connection_stop_request sub]
       \<and> released (chan (state_of (snd (create_websocket_session sub None inb env))))
       \<and> (\<forall>x rest. outcomes (chan env2) = Some x # rest \<longrightarrow>
             (\<exists>s. snd (create_websocket_session sub None inb env) = Raise x s))
       \<and> (outcomes (chan env2) = [] \<or> (\<exists>rest. outcomes (chan env2) = None # rest) \<longrightarrow>
             (\<exists>s. snd (create_websocket_session sub None inb env) = Return s))"
proof -
  have g: "guarded_loop (register_start sub) inb env1
             = send_json (connection_stop_request sub) env2"
    using assms(2,3) by (auto simp: guarded_loop_def register_start_fields)
  have s: "snd (create_websocket_session sub None inb env)
             = release (send_json (connection_stop_request sub) env2)"
    using session_after_init [OF assms(1), of inb] g by simp
  have f: "connection_stop_request sub = JObj [(''id'', JStr (sub_id sub)), (''type'', JStr ''stop'')]"
    by (simp add: connection_stop_request_def)
  have c: "calls (chan (state_of (snd (create_websocket_session sub None inb env))))
             = calls (chan env2) @ [connection_stop_request sub]"
    by (simp only: s calls_release send_json_calls)
  have r: "released (chan (state_of (snd (create_websocket_session sub None inb env))))"
    by (simp only: s released_release)
  have x: "\<forall>x rest. outcomes (chan env2) = Some x # rest \<longrightarrow>
             (\<exists>s. snd (create_websocket_session sub None inb env) = Raise x s)"
    unfolding s using send_json_raises release_cases(1) by blast
  have y: "outcomes (chan env2) = [] \<or> (\<exists>rest. outcomes (chan env2) = None # rest) \<longrightarrow>
             (\<exists>s. snd (create_websocket_session sub None inb env) = Return s)"
    unfolding s using send_json_returns release_cases(2) by blast
  show ?thesis
    using s f c r x y by blast
qed

theorem cancellation_sends_stop_once_witness:
  "snd (create_websocket_session example_subscription None
          [Message (TEXT (Some ack_frame)), Raised CancelledError] example_env)
   = Return
       \<lparr>chan = \<lparr>calls = [connection_init_request example_subscription,
                         connection_start_request example_subscription,
                         connection_stop_request example_subscription],
                outcomes = [], released = True\<rparr>,
        user = 0\<rparr>"
proof -
  let ?env1 = "\<lparr>chan = \<lparr>calls = [connection_init_request example_subscription], outcomes = [],
                         released = False\<rparr>, user = 0::nat\<rparr>"
  let ?env2 = "\<lparr>chan = \<lparr>calls = [connection_init_request example_subscription,
                                   connection_start_request example_subscription],
                         outcomes = [], released = False\<rparr>, user = 0::nat\<rparr>"
  have a: "send_json (connection_init_request example_subscription) example_env = Return ?env1"
    by (simp add: send_json_def example_env_def Let_def)
  have b: "read_loop (register_start example_subscription)
             [Message (TEXT (Some ack_frame)), Raised CancelledError] ?env1
           = Raise CancelledError ?env2"
    by (simp add: Let_def handle_def event_id_def event_type_def is_stop_event_def
        handle_event_def ack_frame_def enum_members_def register_start_def register_def
        example_subscription_def example_callbacks_def SimpleTriggerCallback_def send_json_def
        default_stop_event_types_def)
  show ?thesis
    using cancellation_sends_stop_once [OF a b]
    by (simp add: send_json_def release_def Let_def)
qed

text \<open>
  C8. The \<open>connection_init\<close> frame has the type and a payload whose only entry is the
  request's headers; it does not depend on what \<^verbatim>\<open>request.payload()\<close> holds. The
  \<open>start\<close> frame has the subscription id, the type and, as payload, the whole of
  \<^verbatim>\<open>request.payload()\<close>. The session sends the init frame first and then registers,
  under \<open>CONNECTION_ACK\<close> and behind the handlers already there, a handler that sends
  the start frame.
\<close>

theorem init_and_start_frames:
  "connection_init_request sub
     = JObj [(''type'', JStr ''connection_init''),
             (''payload'', JObj [(''headers'', headers_json (request sub))])]
   \<and> connection_init_request (sub\<lparr>request := (request sub)\<lparr>request_payload := p\<rparr>\<rparr>)
       = connection_init_request sub
   \<and> connection_start_request sub
       = JObj [(''id'', JStr (sub_id sub)), (''type'', JStr ''start''),
               (''payload'', request_payload (request sub))]
   \<and> (send_json (connection_init_request sub) env = Return env1 \<longrightarrow>
         calls (chan env1) = calls (chan env) @ [connection_init_request sub]
       \<and> fst (create_websocket_session sub None inb env) = register_start sub)
   \<and> callbacks (register_start sub) (Some CONNECTION_ACK)
       = callbacks sub (Some CONNECTION_ACK) @ [SimpleTriggerCallback (connection_start_request sub)]
   \<and> SimpleTriggerCallback (connection_start_request sub) ev env'
       = send_json (connection_start_request sub) env'
   \<and> calls (chan (state_of (send_json (connection_start_request sub) env')))
       = calls (chan env') @ [connection_start_request sub]"
proof -
  have a: "send_json (connection_init_request sub) env = Return env1 \<longrightarrow>
         calls (chan env1) = calls (chan env) @ [connection_init_request sub]
       \<and> fst (create_websocket_session sub None inb env) = register_start sub"
  proof
    assume r: "send_json (connection_init_request sub) env = Return env1"
    have "calls (chan (state_of (send_json (connection_init_request sub) env)))
            = calls (chan env) @ [connection_init_request sub]"
      by (rule send_json_calls)
    then have "calls (chan env1) = calls (chan env) @ [connection_init_request sub]"
      using r by simp
    then show "calls (chan env1) = calls (chan env) @ [connection_init_request sub]
       \<and> fst (create_websocket_session sub None inb env) = register_start sub"
      using session_after_init [OF r, of inb] by simp
  qed
  have b: "callbacks (register_start sub) (Some CONNECTION_ACK)
       = callbacks sub (Some CONNECTION_ACK) @ [SimpleTriggerCallback (connection_start_request sub)]"
    by (simp add: register_start_def register_def)
  show ?thesis
    using a b
    by (simp add: connection_init_request_def connection_start_request_def headers_json_def
        SimpleTriggerCallback_def send_json_calls)
qed

theorem init_and_start_frames_witness:
  "create_websocket_session example_subscription None [Message (TEXT (Some ack_frame))] example_env
   = (register_start example_subscription,
      Return \<lparr>chan = \<lparr>calls =
                  [JObj [(''type'', JStr ''connection_init''),
                         (''payload'', JObj [(''headers'', JObj [(''Authorization'', JStr ''Bearer t'')])])],
                   JObj [(''id'', JStr ''sub-1''), (''type'', JStr ''start''),
                         (''payload'', JObj [(''query'', JStr ''subscription { tick }''),
                                             (''variables'', JObj [])])]],
                outcomes = [], released = True\<rparr>,
              user = 0\<rparr>)"
proof -
  let ?env1 = "\<lparr>chan = \<lparr>calls = [connection_init_request example_subscription], outcomes = [],
                         released = False\<rparr>, user = 0::nat\<rparr>"
  have a: "send_json (connection_init_request example_subscription) example_env = Return ?env1"
    by (simp add: send_json_def example_env_def Let_def)
  note f = init_and_start_frames [of example_subscription "JNull" example_env ?env1
      "[Message (TEXT (Some ack_frame))]"]
  have s: "fst (create_websocket_session example_subscription None
                 [Message (TEXT (Some ack_frame))] example_env)
           = register_start example_subscription"
    using f a by blast
  have i: "connection_init_request example_subscription
           = JObj [(''type'', JStr ''connection_init''),
                   (''payload'', JObj [(''headers'', JObj [(''Authorization'', JStr ''Bearer t'')])])]"
    unfolding f [THEN conjunct1]
    by (simp add: headers_json_def example_subscription_def example_request_def)
  have t: "connection_start_request example_subscription
           = JObj [(''id'', JStr ''sub-1''), (''type'', JStr ''start''),
                   (''payload'', JObj [(''query'', JStr ''subscription { tick }''),
                                       (''variables'', JObj [])])]"
    unfolding f [THEN conjunct2, THEN conjunct2, THEN conjunct1]
    by (simp add: example_subscription_def example_request_def)
  have r: "snd (create_websocket_session example_subscription None
                 [Message (TEXT (Some ack_frame))] example_env)
           = Return \<lparr>chan = \<lparr>calls = [connection_init_request example_subscription,
                                        connection_start_request example_subscription],
                              outcomes = [], released = True\<rparr>, user = 0\<rparr>"
    by (simp add: create_websocket_session_def example_env_def guarded_loop_def release_def
        Let_def handle_def event_id_def event_type_def is_stop_event_def handle_event_def
        ack_frame_def enum_members_def register_start_def register_def
        example_subscription_def example_callbacks_def SimpleTriggerCallback_def send_json_def
        default_stop_event_types_def)
  show ?thesis
    using s r i t by (simp add: prod_eq_iff)
qed

end
